theory Spec2Isabelle
  imports Main "HOL-Library.Sublist"
begin

section \<open>LiquibaseDB: the migration executor of \<open>liquibase_cli.py\<close>\<close>

text \<open>
  The program keeps its bookkeeping in two SQLite tables, DATABASECHANGELOG (the ledger)
  and DATABASECHANGELOGLOCK, beside the tables that the change sets themselves create.
  The embedding follows the Python text function by function. What lies outside the
  repository is a parameter of the model:
  \<^item> SQLite, for the statements generated from change operations (\<open>sqlite\<close>);
  \<^item> Python's \<open>repr\<close> of lists and dicts inside an f-string (\<open>repr\<close>);
  \<^item> the wall clock read by \<open>datetime.now().isoformat()\<close> (\<open>clock\<close>);
  \<^item> \<open>json.dumps\<close> and \<open>hashlib.md5(...).hexdigest()\<close>, arguments of the
    constructor of \<open>Migration\<close>.

  The bounds of the model:
  \<^item> the statements generated from change operations act on the user tables only; a raw
    \<open>sql\<close> change that names one of the two bookkeeping tables is not modelled;
  \<^item> the id, the author and the description of a change set are strings, as
    \<open>Migration.__init__\<close> declares them; a document whose ids are YAML numbers is not
    modelled (the ledger column is TEXT and would give them back as strings);
  \<^item> \<open>update\<close> and \<open>rollback\<close> start where the document has been parsed; the checks on
    the file name and the parsers are not modelled.
\<close>

subsection \<open>Parsed documents\<close>

text \<open>
  The values that \<open>yaml.safe_load\<close> and \<open>json.load\<close> produce. A dict is an
  association list in key order (\<open>list(change.keys())[0]\<close> reads the first key);
  keys are strings; floats are left out.
\<close>

datatype json =
    JNull
  | JBool bool
  | JInt int
  | JStr string
  | JList "json list"
  | JDict "(string \<times> json) list"

text \<open>The exceptions that the executor can meet; all of them are \<open>Exception\<close>s.\<close>

datatype py_error =
    KeyError
  | IndexError
  | TypeError
  | AttributeError
  | ValueError
  | SqliteError

definition bind :: "py_error + 'a \<Rightarrow> ('a \<Rightarrow> py_error + 'b) \<Rightarrow> py_error + 'b" where
  "bind r f = (case r of Inl e \<Rightarrow> Inl e | Inr x \<Rightarrow> f x)"

text \<open>\<open>d[k]\<close> with a string key: only a dict can be subscripted so.\<close>

fun subscript :: "json \<Rightarrow> string \<Rightarrow> py_error + json" where
  "subscript (JDict kvs) k = (case map_of kvs k of None \<Rightarrow> Inl KeyError | Some v \<Rightarrow> Inr v)"
| "subscript _ k = Inl TypeError"

text \<open>\<open>d.get(k, default)\<close>: values other than dicts have no attribute \<open>get\<close>.\<close>

fun dict_get :: "json \<Rightarrow> string \<Rightarrow> json \<Rightarrow> py_error + json" where
  "dict_get (JDict kvs) k d = Inr (case map_of kvs k of None \<Rightarrow> d | Some v \<Rightarrow> v)"
| "dict_get _ k d = Inl AttributeError"

text \<open>\<open>k in d\<close>, evaluated by the program only where \<open>d\<close> is a dict.\<close>

fun has_key :: "json \<Rightarrow> string \<Rightarrow> bool" where
  "has_key (JDict kvs) k = (k \<in> set (map fst kvs))"
| "has_key _ k = False"

text \<open>Truth value of an object in a condition, and the comparison \<open>v == False\<close>.\<close>

fun truthy :: "json \<Rightarrow> bool" where
  "truthy JNull = False"
| "truthy (JBool b) = b"
| "truthy (JInt i) = (i \<noteq> 0)"
| "truthy (JStr s) = (s \<noteq> [])"
| "truthy (JList xs) = (xs \<noteq> [])"
| "truthy (JDict kvs) = (kvs \<noteq> [])"

fun eq_False :: "json \<Rightarrow> bool" where
  "eq_False (JBool b) = (\<not> b)"
| "eq_False (JInt i) = (i = 0)"
| "eq_False _ = False"

text \<open>
  \<open>for x in v\<close>: a list gives its elements, a dict its keys, a string its characters;
  anything else is not iterable.
\<close>

fun py_iter :: "json \<Rightarrow> py_error + json list" where
  "py_iter (JList xs) = Inr xs"
| "py_iter (JDict kvs) = Inr (map (\<lambda>kv. JStr (fst kv)) kvs)"
| "py_iter (JStr s) = Inr (map (\<lambda>c. JStr [c]) s)"
| "py_iter _ = Inl TypeError"

text \<open>Decimal digits of an integer, as \<open>str\<close> prints them.\<close>

definition digit :: "nat \<Rightarrow> char" where
  "digit d = char_of (48 + d)"

function decimal :: "nat \<Rightarrow> string" where
  "decimal n = (if n < 10 then [digit n] else decimal (n div 10) @ [digit (n mod 10)])"
  by pat_completeness auto
termination
  by (relation "measure (\<lambda>n. n)") auto

declare decimal.simps [simp del]

definition str_int :: "int \<Rightarrow> string" where
  "str_int i = (if i < 0 then CHR ''-'' # decimal (nat (- i)) else decimal (nat i))"

text \<open>
  The text that an f-string inserts for \<open>{v}\<close>. For a list or a dict Python prints
  the \<open>repr\<close> of the elements, which is the parameter \<open>rp\<close>.
\<close>

fun py_str :: "(json \<Rightarrow> string) \<Rightarrow> json \<Rightarrow> string" where
  "py_str rp (JStr s) = s"
| "py_str rp (JInt i) = str_int i"
| "py_str rp (JBool b) = (if b then ''True'' else ''False'')"
| "py_str rp JNull = ''None''"
| "py_str rp v = rp v"

text \<open>\<open>sep.join(xs)\<close> on strings.\<close>

fun join :: "string \<Rightarrow> string list \<Rightarrow> string" where
  "join sep [] = []"
| "join sep [x] = x"
| "join sep (x # y # ys) = x @ sep @ join sep (y # ys)"

subsection \<open>class Migration\<close>

record migration =
  id' :: string
  author :: string
  description :: string
  changes :: "json list"
  rollback' :: "json list"
  checksum :: string
  executed_at :: "string option"

text \<open>
  \<open>_calculate_checksum\<close> reads \<open>self.id\<close>, \<open>self.author\<close> and \<open>self.changes\<close>:
  the three texts are concatenated with nothing between them and hashed.
\<close>

definition calculate_checksum ::
  "(string \<Rightarrow> string) \<Rightarrow> (json \<Rightarrow> string) \<Rightarrow> string \<Rightarrow> string \<Rightarrow> json list \<Rightarrow> string" where
  "calculate_checksum md5_hexdigest json_dumps i a chs =
     (let content = i @ a @ json_dumps (JList chs) in md5_hexdigest content)"

text \<open>\<open>Migration.__init__\<close>; \<open>rollback or []\<close> turns a missing rollback into the empty list.\<close>

definition Migration ::
  "(string \<Rightarrow> string) \<Rightarrow> (json \<Rightarrow> string) \<Rightarrow>
   string \<Rightarrow> string \<Rightarrow> string \<Rightarrow> json list \<Rightarrow> json list option \<Rightarrow> migration" where
  "Migration md5_hexdigest json_dumps i a d chs rb =
     \<lparr> id' = i, author = a, description = d, changes = chs,
       rollback' = (case rb of None \<Rightarrow> [] | Some r \<Rightarrow> r),
       checksum = calculate_checksum md5_hexdigest json_dumps i a chs,
       executed_at = None \<rparr>"

subsection \<open>The store, the terminal and the clock\<close>

text \<open>A row of DATABASECHANGELOG: the nine columns that the INSERT fills; the other
  columns of the table are NULL in every row that the executor writes.\<close>

record changelog_row =
  id_col :: string
  author_col :: string
  filename :: string
  date_executed :: string
  order_executed :: int
  exec_type :: string
  md5sum :: string
  description_col :: string
  liquibase_version :: string

text \<open>The single row of DATABASECHANGELOGLOCK (\<open>CHECK (id = 1)\<close>).\<close>

record lock_row =
  locked :: bool
  lockgranted :: "string option"
  lockedby :: "string option"

text \<open>One constructor for each \<open>click.echo\<close> that update and rollback can reach.\<close>

datatype message =
    Executing string string
  | Executed string
  | ExecuteError string py_error
  | RollingBack string
  | NoRollbackDefined
  | RolledBack string
  | RollbackError string py_error
  | DropColumnNote
  | UpToDate
  | FoundPending nat

text \<open>
  The world in which a command runs. \<open>changelog\<close> holds the rows of DATABASECHANGELOG in
  rowid order, \<open>changeloglock\<close> the lock row if it has been inserted, \<open>user\<close> all the
  tables of the file that are not bookkeeping, \<open>out\<close> what has been echoed, and \<open>ticks\<close>
  counts the readings of the clock.
\<close>

record 'u world =
  changelog :: "changelog_row list"
  changeloglock :: "lock_row option"
  user :: 'u
  out :: "message list"
  ticks :: nat

text \<open>
  What is not code of the repository. \<open>sqlite u sql params\<close> is \<open>cursor.execute\<close> on a
  statement generated from a change operation, run against the user tables:
  \<open>None\<close> when sqlite3 raises, otherwise the tables after the statement.
\<close>

record 'u env =
  sqlite :: "'u \<Rightarrow> string \<Rightarrow> json list \<Rightarrow> 'u option"
  repr :: "json \<Rightarrow> string"
  clock :: "nat \<Rightarrow> string"

definition echo :: "'u world \<Rightarrow> message \<Rightarrow> 'u world" where
  "echo w msg = w\<lparr>out := out w @ [msg]\<rparr>"

text \<open>\<open>datetime.now().isoformat()\<close>.\<close>

definition now_isoformat :: "'u env \<Rightarrow> 'u world \<Rightarrow> string \<times> 'u world" where
  "now_isoformat env w = (clock env (ticks w), w\<lparr>ticks := Suc (ticks w)\<rparr>)"

subsection \<open>class DatabaseManager\<close>

text \<open>
  \<open>_init_changelog_table\<close>: both tables are created if they do not exist and the lock row
  is inserted unlocked unless a row is there (\<open>INSERT OR IGNORE\<close>). The model does not
  tell an absent DATABASECHANGELOG from an empty one: the table exists when a command
  body runs.
\<close>

definition init_changelog_table :: "'u world \<Rightarrow> 'u world" where
  "init_changelog_table w =
     (case changeloglock w of
        None \<Rightarrow> w\<lparr>changeloglock := Some \<lparr>locked = False, lockgranted = None, lockedby = None\<rparr>\<rparr>
      | Some l \<Rightarrow> w)"

text \<open>
  The statements that reach \<open>execute_sql\<close>: the text generated from a change operation,
  with its parameters, and the two fixed statements on DATABASECHANGELOG.
\<close>

datatype stmt =
    Sql string "json list"
  | InsertChangelog changelog_row
  | DeleteChangelog string

text \<open>
  \<open>execute_sql\<close>: execute, then commit. A statement that raises changes nothing. The
  INSERT raises when the primary key \<open>id\<close> is taken.
\<close>

fun execute_sql :: "'u env \<Rightarrow> 'u world \<Rightarrow> stmt \<Rightarrow> py_error option \<times> 'u world" where
  "execute_sql env w (Sql sql params) =
     (case sqlite env (user w) sql params of
        None \<Rightarrow> (Some SqliteError, w)
      | Some u \<Rightarrow> (None, w\<lparr>user := u\<rparr>))"
| "execute_sql env w (InsertChangelog r) =
     (if id_col r \<in> set (map id_col (changelog w)) then (Some SqliteError, w)
      else (None, w\<lparr>changelog := changelog w @ [r]\<rparr>))"
| "execute_sql env w (DeleteChangelog i) =
     (None, w\<lparr>changelog := filter (\<lambda>r. id_col r \<noteq> i) (changelog w)\<rparr>)"

subsection \<open>class MigrationExecutor: the change handlers\<close>

text \<open>A comprehension or a loop body that can raise: the first error ends it.\<close>

fun map_result :: "('a \<Rightarrow> py_error + 'b) \<Rightarrow> 'a list \<Rightarrow> py_error + 'b list" where
  "map_result f [] = Inr []"
| "map_result f (x # xs) = bind (f x) (\<lambda>y. bind (map_result f xs) (\<lambda>ys. Inr (y # ys)))"

text \<open>\<open>col.get('constraints', {}).get(k)\<close>.\<close>

definition constraint :: "json \<Rightarrow> string \<Rightarrow> py_error + json" where
  "constraint col k = bind (dict_get col ''constraints'' (JDict [])) (\<lambda>c. dict_get c k JNull)"

text \<open>The body of the loop of \<open>_create_table\<close>: the definition of one column.\<close>

definition column_def :: "(json \<Rightarrow> string) \<Rightarrow> json \<Rightarrow> py_error + string" where
  "column_def rp col =
     bind (subscript col ''name'') (\<lambda>name.
     bind (subscript col ''type'') (\<lambda>type.
     bind (constraint col ''primaryKey'') (\<lambda>pk.
     bind (constraint col ''autoIncrement'') (\<lambda>ai.
     bind (constraint col ''nullable'') (\<lambda>nl.
     bind (constraint col ''unique'') (\<lambda>uq.
     bind (if has_key col ''defaultValue''
           then bind (subscript col ''defaultValue'') (\<lambda>dv. Inr ('' DEFAULT '' @ py_str rp dv))
           else Inr []) (\<lambda>dflt.
     Inr (py_str rp name @ '' '' @ py_str rp type
          @ (if truthy pk then '' PRIMARY KEY'' else [])
          @ (if truthy ai then '' AUTOINCREMENT'' else [])
          @ (if eq_False nl then '' NOT NULL'' else [])
          @ (if truthy uq then '' UNIQUE'' else [])
          @ dflt))))))))"

definition create_table_sql :: "(json \<Rightarrow> string) \<Rightarrow> json \<Rightarrow> py_error + string" where
  "create_table_sql rp data =
     bind (subscript data ''tableName'') (\<lambda>table_name.
     bind (subscript data ''columns'') (\<lambda>columns.
     bind (py_iter columns) (\<lambda>cols.
     bind (map_result (column_def rp) cols) (\<lambda>column_defs.
     Inr (''CREATE TABLE '' @ py_str rp table_name @ '' ('' @ join '', '' column_defs @ '')'')))))"

definition create_table :: "'u env \<Rightarrow> 'u world \<Rightarrow> json \<Rightarrow> py_error option \<times> 'u world" where
  "create_table env w data =
     (case create_table_sql (repr env) data of
        Inl e \<Rightarrow> (Some e, w)
      | Inr sql \<Rightarrow> execute_sql env w (Sql sql []))"

definition add_column_sql :: "(json \<Rightarrow> string) \<Rightarrow> json \<Rightarrow> py_error + string" where
  "add_column_sql rp data =
     bind (subscript data ''tableName'') (\<lambda>table_name.
     bind (subscript data ''column'') (\<lambda>column.
     bind (subscript column ''name'') (\<lambda>name.
     bind (subscript column ''type'') (\<lambda>type.
     bind (if has_key column ''defaultValue''
           then bind (subscript column ''defaultValue'') (\<lambda>dv. Inr ('' DEFAULT '' @ py_str rp dv))
           else Inr []) (\<lambda>dflt.
     Inr (''ALTER TABLE '' @ py_str rp table_name @ '' ADD COLUMN ''
          @ py_str rp name @ '' '' @ py_str rp type @ dflt))))))"

definition add_column :: "'u env \<Rightarrow> 'u world \<Rightarrow> json \<Rightarrow> py_error option \<times> 'u world" where
  "add_column env w data =
     (case add_column_sql (repr env) data of
        Inl e \<Rightarrow> (Some e, w)
      | Inr sql \<Rightarrow> execute_sql env w (Sql sql []))"

definition drop_column_sql :: "(json \<Rightarrow> string) \<Rightarrow> json \<Rightarrow> py_error + string" where
  "drop_column_sql rp data =
     bind (subscript data ''tableName'') (\<lambda>table_name.
     bind (subscript data ''columnName'') (\<lambda>column_name.
     Inr (''ALTER TABLE '' @ py_str rp table_name @ '' DROP COLUMN '' @ py_str rp column_name)))"

text \<open>\<open>_drop_column\<close> echoes its note before it reads the data.\<close>

definition drop_column :: "'u env \<Rightarrow> 'u world \<Rightarrow> json \<Rightarrow> py_error option \<times> 'u world" where
  "drop_column env w data =
     (let w1 = echo w DropColumnNote in
      case drop_column_sql (repr env) data of
        Inl e \<Rightarrow> (Some e, w1)
      | Inr sql \<Rightarrow> execute_sql env w1 (Sql sql []))"

definition rename_column_sql :: "(json \<Rightarrow> string) \<Rightarrow> json \<Rightarrow> py_error + string" where
  "rename_column_sql rp data =
     bind (subscript data ''tableName'') (\<lambda>table_name.
     bind (subscript data ''oldColumnName'') (\<lambda>old_name.
     bind (subscript data ''newColumnName'') (\<lambda>new_name.
     Inr (''ALTER TABLE '' @ py_str rp table_name @ '' RENAME COLUMN ''
          @ py_str rp old_name @ '' TO '' @ py_str rp new_name))))"

definition rename_column :: "'u env \<Rightarrow> 'u world \<Rightarrow> json \<Rightarrow> py_error option \<times> 'u world" where
  "rename_column env w data =
     (case rename_column_sql (repr env) data of
        Inl e \<Rightarrow> (Some e, w)
      | Inr sql \<Rightarrow> execute_sql env w (Sql sql []))"

text \<open>\<open>', '.join\<close> raises TypeError on an item that is not a string.\<close>

fun str_item :: "json \<Rightarrow> py_error + string" where
  "str_item (JStr s) = Inr s"
| "str_item _ = Inl TypeError"

definition create_index_sql :: "(json \<Rightarrow> string) \<Rightarrow> json \<Rightarrow> py_error + string" where
  "create_index_sql rp data =
     bind (subscript data ''indexName'') (\<lambda>index_name.
     bind (subscript data ''tableName'') (\<lambda>table_name.
     bind (subscript data ''columns'') (\<lambda>columns.
     bind (py_iter columns) (\<lambda>cols.
     bind (map_result (\<lambda>col. subscript col ''name'') cols) (\<lambda>names.
     bind (map_result str_item names) (\<lambda>items.
     Inr (''CREATE INDEX '' @ py_str rp index_name @ '' ON '' @ py_str rp table_name
          @ '' ('' @ join '', '' items @ '')'')))))))"

definition create_index :: "'u env \<Rightarrow> 'u world \<Rightarrow> json \<Rightarrow> py_error option \<times> 'u world" where
  "create_index env w data =
     (case create_index_sql (repr env) data of
        Inl e \<Rightarrow> (Some e, w)
      | Inr sql \<Rightarrow> execute_sql env w (Sql sql []))"

definition drop_table_sql :: "(json \<Rightarrow> string) \<Rightarrow> json \<Rightarrow> py_error + string" where
  "drop_table_sql rp data =
     bind (subscript data ''tableName'') (\<lambda>table_name.
     Inr (''DROP TABLE IF EXISTS '' @ py_str rp table_name))"

definition drop_table :: "'u env \<Rightarrow> 'u world \<Rightarrow> json \<Rightarrow> py_error option \<times> 'u world" where
  "drop_table env w data =
     (case drop_table_sql (repr env) data of
        Inl e \<Rightarrow> (Some e, w)
      | Inr sql \<Rightarrow> execute_sql env w (Sql sql []))"

text \<open>\<open>_execute_raw_sql\<close>: \<open>cursor.execute\<close> takes a string and raises TypeError otherwise.\<close>

definition execute_raw_sql :: "'u env \<Rightarrow> 'u world \<Rightarrow> json \<Rightarrow> py_error option \<times> 'u world" where
  "execute_raw_sql env w data =
     (case subscript data ''sql'' of
        Inl e \<Rightarrow> (Some e, w)
      | Inr (JStr sql) \<Rightarrow> execute_sql env w (Sql sql [])
      | Inr _ \<Rightarrow> (Some TypeError, w))"

text \<open>\<open>d.keys()\<close> and \<open>d.values()\<close> together: the items of a dict.\<close>

fun dict_items :: "json \<Rightarrow> py_error + (string \<times> json) list" where
  "dict_items (JDict kvs) = Inr kvs"
| "dict_items _ = Inl AttributeError"

definition insert_data_sql :: "(json \<Rightarrow> string) \<Rightarrow> json \<Rightarrow> py_error + string \<times> json list" where
  "insert_data_sql rp data =
     bind (subscript data ''tableName'') (\<lambda>table_name.
     bind (subscript data ''columns'') (\<lambda>cs.
     bind (dict_items cs) (\<lambda>items.
     (let columns = map fst items;
          values = map snd items;
          placeholders = join '', '' (map (\<lambda>_. ''?'') values);
          column_list = join '', '' columns
      in Inr (''INSERT INTO '' @ py_str rp table_name @ '' ('' @ column_list
              @ '') VALUES ('' @ placeholders @ '')'', values)))))"

definition insert_data :: "'u env \<Rightarrow> 'u world \<Rightarrow> json \<Rightarrow> py_error option \<times> 'u world" where
  "insert_data env w data =
     (case insert_data_sql (repr env) data of
        Inl e \<Rightarrow> (Some e, w)
      | Inr (sql, values) \<Rightarrow> execute_sql env w (Sql sql values))"

text \<open>
  \<open>_execute_change\<close>: the first key of the change is its type, the value under it the
  data. A change that is no dict has no \<open>keys\<close>; an empty one has no first key.
\<close>

fun execute_change :: "'u env \<Rightarrow> 'u world \<Rightarrow> json \<Rightarrow> py_error option \<times> 'u world" where
  "execute_change env w (JDict []) = (Some IndexError, w)"
| "execute_change env w (JDict ((change_type, change_data) # rest)) =
     (if change_type = ''createTable'' then create_table env w change_data
      else if change_type = ''addColumn'' then add_column env w change_data
      else if change_type = ''dropColumn'' then drop_column env w change_data
      else if change_type = ''renameColumn'' then rename_column env w change_data
      else if change_type = ''createIndex'' then create_index env w change_data
      else if change_type = ''dropTable'' then drop_table env w change_data
      else if change_type = ''sql'' then execute_raw_sql env w change_data
      else if change_type = ''insert'' then insert_data env w change_data
      else (Some ValueError, w))"
| "execute_change env w _ = (Some AttributeError, w)"

text \<open>\<open>for change in ...: self._execute_change(change)\<close>: the first exception leaves the loop.\<close>

fun execute_changes :: "'u env \<Rightarrow> 'u world \<Rightarrow> json list \<Rightarrow> py_error option \<times> 'u world" where
  "execute_changes env w [] = (None, w)"
| "execute_changes env w (c # cs) =
     (case execute_change env w c of
        (Some e, w1) \<Rightarrow> (Some e, w1)
      | (None, w1) \<Rightarrow> execute_changes env w1 cs)"

subsection \<open>class MigrationExecutor: migrations\<close>

text \<open>
  \<open>SELECT id FROM DATABASECHANGELOG ORDER BY order_executed\<close>. Rows with the same
  \<open>order_executed\<close> come in rowid order here (a stable sort); SQL leaves their order open.
\<close>

definition get_executed_migrations :: "'u world \<Rightarrow> string list" where
  "get_executed_migrations w = map id_col (sort_key order_executed (changelog w))"

definition execute_migration ::
  "'u env \<Rightarrow> 'u world \<Rightarrow> migration \<Rightarrow> string \<Rightarrow> bool \<times> 'u world" where
  "execute_migration env w m fname =
     (let w0 = echo w (Executing (id' m) (author m)) in
      case execute_changes env w0 (changes m) of
        (Some e, w1) \<Rightarrow> (False, echo w1 (ExecuteError (id' m) e))
      | (None, w1) \<Rightarrow>
          (let order = int (length (get_executed_migrations w1)) + 1;
               (now, w2) = now_isoformat env w1
           in case execute_sql env w2 (InsertChangelog
                 \<lparr> id_col = id' m, author_col = author m, filename = fname,
                   date_executed = now, order_executed = order,
                   exec_type = ''EXECUTED'', md5sum = checksum m,
                   description_col = description m, liquibase_version = ''1.0.0'' \<rparr>) of
                (Some e, w3) \<Rightarrow> (False, echo w3 (ExecuteError (id' m) e))
              | (None, w3) \<Rightarrow> (True, echo w3 (Executed (id' m)))))"

definition rollback_migration :: "'u env \<Rightarrow> 'u world \<Rightarrow> migration \<Rightarrow> bool \<times> 'u world" where
  "rollback_migration env w m =
     (let w0 = echo w (RollingBack (id' m)) in
      if rollback' m = [] then (False, echo w0 NoRollbackDefined)
      else case execute_changes env w0 (rollback' m) of
             (Some e, w1) \<Rightarrow> (False, echo w1 (RollbackError (id' m) e))
           | (None, w1) \<Rightarrow>
               (case execute_sql env w1 (DeleteChangelog (id' m)) of
                  (Some e, w2) \<Rightarrow> (False, echo w2 (RollbackError (id' m) e))
                | (None, w2) \<Rightarrow> (True, echo w2 (RolledBack (id' m)))))"

subsection \<open>The commands\<close>

text \<open>The group callback \<open>cli\<close> builds the DatabaseManager, which initialises the tables.\<close>

definition cli :: "'u world \<Rightarrow> 'u world" where
  "cli w = init_changelog_table w"

text \<open>
  \<open>update\<close>, from the parsed document on. The value that \<open>execute_migration\<close> returns is
  not looked at.
\<close>

fun update_loop :: "'u env \<Rightarrow> 'u world \<Rightarrow> migration list \<Rightarrow> string \<Rightarrow> 'u world" where
  "update_loop env w [] changelog_file = w"
| "update_loop env w (m # ms) changelog_file =
     update_loop env (snd (execute_migration env w m changelog_file)) ms changelog_file"

definition update :: "'u env \<Rightarrow> 'u world \<Rightarrow> migration list \<Rightarrow> string \<Rightarrow> 'u world" where
  "update env w migrations changelog_file =
     (let executed = get_executed_migrations w;
          pending = filter (\<lambda>m. id' m \<notin> set executed) migrations
      in if pending = [] then echo w UpToDate
         else update_loop env (echo w (FoundPending (length pending))) pending changelog_file)"

text \<open>The slice \<open>xs[start:]\<close>: a negative start counts from the end; both ends clamp.\<close>

definition slice_from :: "int \<Rightarrow> 'a list \<Rightarrow> 'a list" where
  "slice_from start xs =
     (let n = int (length xs);
          s = (if start < 0 then max 0 (n + start) else min start n)
      in drop (nat s) xs)"

text \<open>\<open>to_rollback = executed[-count:]\<close>, then \<open>to_rollback.reverse()\<close>.\<close>

definition to_rollback :: "int \<Rightarrow> string list \<Rightarrow> string list" where
  "to_rollback count executed = rev (slice_from (- count) executed)"

text \<open>\<open>{m.id: m for m in migrations}\<close>: of two migrations with one id the later stays.\<close>

definition migrations_dict :: "migration list \<Rightarrow> string \<Rightarrow> migration option" where
  "migrations_dict migrations = map_of (rev (map (\<lambda>m. (id' m, m)) migrations))"

fun rollback_loop ::
  "'u env \<Rightarrow> 'u world \<Rightarrow> (string \<Rightarrow> migration option) \<Rightarrow> string list \<Rightarrow> 'u world" where
  "rollback_loop env w d [] = w"
| "rollback_loop env w d (migration_id # rest) =
     (case d migration_id of
        None \<Rightarrow> rollback_loop env w d rest
      | Some m \<Rightarrow> rollback_loop env (snd (rollback_migration env w m)) d rest)"

definition rollback :: "'u env \<Rightarrow> 'u world \<Rightarrow> int \<Rightarrow> migration list \<Rightarrow> 'u world" where
  "rollback env w count migrations =
     (let executed = get_executed_migrations w
      in rollback_loop env w (migrations_dict migrations) (to_rollback count executed))"

subsection \<open>What a run has attempted\<close>

text \<open>The ids in the lines "Executing migration: ..." of an output, in order.\<close>

fun attempts :: "message list \<Rightarrow> string list" where
  "attempts [] = []"
| "attempts (Executing i a # msgs) = i # attempts msgs"
| "attempts (msg # msgs) = attempts msgs"

text \<open>
  What no change operation touches: the two bookkeeping tables, the clock, and the list
  of change sets that the output says were started.
\<close>

definition bookkeeping ::
  "'u world \<Rightarrow> changelog_row list \<times> lock_row option \<times> nat \<times> string list" where
  "bookkeeping w = (changelog w, changeloglock w, ticks w, attempts (out w))"

text \<open>
  A change of the world that no change operation can tell or undo: it leaves the user
  tables and the output alone and does not depend on them.
\<close>

definition beside_changes :: "('u world \<Rightarrow> 'u world) \<Rightarrow> bool" where
  "beside_changes F \<longleftrightarrow>
     (\<forall>v. user (F v) = user v \<and> out (F v) = out v)
     \<and> (\<forall>v u. F (v\<lparr>user := u\<rparr>) = (F v)\<lparr>user := u\<rparr>)
     \<and> (\<forall>v msgs. F (v\<lparr>out := msgs\<rparr>) = (F v)\<lparr>out := msgs\<rparr>)"

text \<open>The ledger with other fingerprints in its rows.\<close>

definition restamp :: "(changelog_row \<Rightarrow> string) \<Rightarrow> 'u world \<Rightarrow> 'u world" where
  "restamp h w = w\<lparr>changelog := map (\<lambda>r. r\<lparr>md5sum := h r\<rparr>) (changelog w)\<rparr>"

subsection \<open>A store and documents for the examples\<close>

text \<open>
  An SQLite that accepts every statement and keeps the journal of what was committed
  (every statement of the runs below is one that SQLite accepts where it is executed),
  and a new database file.
\<close>

definition recording_env :: "(string \<times> json list) list env" where
  "recording_env =
     \<lparr> sqlite = (\<lambda>u sql params. Some (u @ [(sql, params)])),
       repr = (\<lambda>v. []),
       clock = (\<lambda>n. ''2024-01-01T00:00:0'' @ decimal n) \<rparr>"

definition fresh :: "(string \<times> json list) list world" where
  "fresh = \<lparr> changelog = [], changeloglock = None, user = [], out = [], ticks = 0 \<rparr>"

text \<open>A file whose lock row says that another process holds the lock.\<close>

definition held :: "(string \<times> json list) list world" where
  "held = fresh\<lparr>changeloglock :=
     Some \<lparr>locked = True, lockgranted = Some ''2024-01-01T00:00:00'', lockedby = Some ''other''\<rparr>\<rparr>"

text \<open>
  Change sets as \<open>Migration\<close> builds them; each checksum is the MD5 of
  id, author and \<open>json.dumps(changes)\<close>, for instance of
  \<open>Aann[{"sql": {"sql": "CREATE TABLE a (x)"}}]\<close>.
\<close>

definition raw_sql :: "string \<Rightarrow> json" where
  "raw_sql s = JDict [(''sql'', JDict [(''sql'', JStr s)])]"

definition mig_A :: migration where
  "mig_A = \<lparr> id' = ''A'', author = ''ann'', description = [],
     changes = [raw_sql ''CREATE TABLE a (x)''],
     rollback' = [JDict [(''dropTable'', JDict [(''tableName'', JStr ''a'')])]],
     checksum = ''8544e8329ff90d92d11c3c95b16e3d62'', executed_at = None \<rparr>"

definition mig_B :: migration where
  "mig_B = \<lparr> id' = ''B'', author = ''ann'', description = [],
     changes = [raw_sql ''CREATE TABLE b (x)''],
     rollback' = [JDict [(''dropTable'', JDict [(''tableName'', JStr ''b'')])]],
     checksum = ''bd7a3994f72006bdcd3137eb12048e2a'', executed_at = None \<rparr>"

definition mig_C :: migration where
  "mig_C = \<lparr> id' = ''C'', author = ''ann'', description = [],
     changes = [raw_sql ''CREATE TABLE c (x)''],
     rollback' = [JDict [(''dropTable'', JDict [(''tableName'', JStr ''c'')])]],
     checksum = ''4dc3354fbd50e16cea0611f8ad28bb95'', executed_at = None \<rparr>"

definition mig_D :: migration where
  "mig_D = \<lparr> id' = ''D'', author = ''ann'', description = [],
     changes = [raw_sql ''CREATE TABLE d (x)''],
     rollback' = [JDict [(''dropTable'', JDict [(''tableName'', JStr ''d'')])]],
     checksum = ''f5bf062749669dff8a3cda24d2a8c86c'', executed_at = None \<rparr>"

text \<open>Change set A after its author has edited the operations: another checksum.\<close>

definition mig_A_edited :: migration where
  "mig_A_edited = \<lparr> id' = ''A'', author = ''ann'', description = [],
     changes = [raw_sql ''CREATE TABLE a (x, y)''],
     rollback' = [JDict [(''dropTable'', JDict [(''tableName'', JStr ''a'')])]],
     checksum = ''e8a27c895994680b16fc9194e37201df'', executed_at = None \<rparr>"

text \<open>A change set whose second operation is malformed: addColumn without a column.\<close>

definition mig_bad :: migration where
  "mig_bad = \<lparr> id' = ''bad'', author = ''ann'', description = [],
     changes = [raw_sql ''CREATE TABLE t (x)'',
                JDict [(''addColumn'', JDict [(''tableName'', JStr ''t'')])]],
     rollback' = [],
     checksum = ''be758392fc25ac4a91b70c8ae1758ae7'', executed_at = None \<rparr>"

lemmas example_defs =
  recording_env_def fresh_def held_def raw_sql_def
  mig_A_def mig_B_def mig_C_def mig_D_def mig_A_edited_def mig_bad_def

lemmas run_defs =
  cli_def init_changelog_table_def update_def rollback_def to_rollback_def slice_from_def
  migrations_dict_def get_executed_migrations_def execute_migration_def
  rollback_migration_def echo_def now_isoformat_def execute_raw_sql_def
  drop_table_def drop_table_sql_def add_column_def add_column_sql_def bind_def

section \<open>Change operations and the bookkeeping\<close>

lemma attempts_append: "attempts (xs @ ys) = attempts xs @ attempts ys"
  by (induction xs rule: attempts.induct) simp_all

lemma bookkeeping_echo:
  "bookkeeping (echo w msg) = (changelog w, changeloglock w, ticks w, attempts (out w @ [msg]))"
  by (simp add: bookkeeping_def echo_def)

lemma execute_sql_Sql_books: "bookkeeping (snd (execute_sql env w (Sql s ps))) = bookkeeping w"
  by (simp add: bookkeeping_def split: option.splits)

lemma create_table_books: "bookkeeping (snd (create_table env w d)) = bookkeeping w"
  by (simp add: create_table_def execute_sql_Sql_books del: execute_sql.simps split: sum.splits)

lemma add_column_books: "bookkeeping (snd (add_column env w d)) = bookkeeping w"
  by (simp add: add_column_def execute_sql_Sql_books del: execute_sql.simps split: sum.splits)

lemma drop_column_books: "bookkeeping (snd (drop_column env w d)) = bookkeeping w"
proof -
  have "bookkeeping (echo w DropColumnNote) = bookkeeping w"
    by (simp add: bookkeeping_def echo_def attempts_append)
  then show ?thesis
    by (simp add: drop_column_def execute_sql_Sql_books Let_def del: execute_sql.simps split: sum.splits)
qed

lemma rename_column_books: "bookkeeping (snd (rename_column env w d)) = bookkeeping w"
  by (simp add: rename_column_def execute_sql_Sql_books del: execute_sql.simps split: sum.splits)

lemma create_index_books: "bookkeeping (snd (create_index env w d)) = bookkeeping w"
  by (simp add: create_index_def execute_sql_Sql_books del: execute_sql.simps split: sum.splits)

lemma drop_table_books: "bookkeeping (snd (drop_table env w d)) = bookkeeping w"
  by (simp add: drop_table_def execute_sql_Sql_books del: execute_sql.simps split: sum.splits)

lemma execute_raw_sql_books: "bookkeeping (snd (execute_raw_sql env w d)) = bookkeeping w"
  by (simp add: execute_raw_sql_def execute_sql_Sql_books del: execute_sql.simps split: sum.splits json.splits)

lemma insert_data_books: "bookkeeping (snd (insert_data env w d)) = bookkeeping w"
  by (simp add: insert_data_def execute_sql_Sql_books del: execute_sql.simps split: sum.splits prod.splits)

lemmas handler_books =
  create_table_books add_column_books drop_column_books rename_column_books
  create_index_books drop_table_books execute_raw_sql_books insert_data_books

lemma execute_change_books: "bookkeeping (snd (execute_change env w c)) = bookkeeping w"
  by (cases "(env, w, c)" rule: execute_change.cases) (simp_all add: handler_books)

lemma execute_changes_books: "bookkeeping (snd (execute_changes env w cs)) = bookkeeping w"
proof (induction cs arbitrary: w)
  case Nil
  show ?case by simp
next
  case (Cons c cs)
  obtain r w1 where step: "execute_change env w c = (r, w1)"
    by (cases "execute_change env w c")
  have "bookkeeping w1 = bookkeeping w"
    using execute_change_books [of env w c] step by simp
  with Cons.IH [of w1] step show ?case
    by (cases r) simp_all
qed

lemma execute_change_fails:
  "fst (execute_change env w c) \<noteq> None \<Longrightarrow> user (snd (execute_change env w c)) = user w"
proof (cases "(env, w, c)" rule: execute_change.cases)
  case (2 env' w' change_type change_data rest)
  have sql: "\<And>v s ps. fst (execute_sql env v (Sql s ps)) \<noteq> None \<Longrightarrow>
      user (snd (execute_sql env v (Sql s ps))) = user v"
    by (simp split: option.splits)
  assume "fst (execute_change env w c) \<noteq> None"
  with 2 sql show ?thesis
    by (auto simp: create_table_def add_column_def drop_column_def rename_column_def
        create_index_def drop_table_def execute_raw_sql_def insert_data_def echo_def Let_def
        simp del: execute_sql.simps split: if_splits sum.splits json.splits prod.splits)
qed simp_all

lemma execute_changes_append_fail:
  "execute_changes env w pre = (None, w1) \<Longrightarrow> execute_change env w1 c = (Some e, w2) \<Longrightarrow>
   execute_changes env w (pre @ c # post) = (Some e, w2)"
  by (induction pre arbitrary: w) (auto split: prod.splits option.splits)

lemma execute_migration_changelog:
  "changelog (snd (execute_migration env w m f)) =
     (if fst (execute_migration env w m f)
      then changelog w @ [\<lparr> id_col = id' m, author_col = author m, filename = f,
             date_executed = clock env (ticks w),
             order_executed = int (length (changelog w)) + 1,
             exec_type = ''EXECUTED'', md5sum = checksum m,
             description_col = description m, liquibase_version = ''1.0.0'' \<rparr>]
      else changelog w)"
proof -
  obtain r w1 where ec:
    "execute_changes env (echo w (Executing (id' m) (author m))) (changes m) = (r, w1)"
    by (cases "execute_changes env (echo w (Executing (id' m) (author m))) (changes m)")
  have "bookkeeping w1 = bookkeeping (echo w (Executing (id' m) (author m)))"
    using execute_changes_books [of env "echo w (Executing (id' m) (author m))" "changes m"] ec
    by simp
  then have "changelog w1 = changelog w" "ticks w1 = ticks w"
    by (simp_all add: bookkeeping_def echo_def)
  then show ?thesis
    using ec
    by (cases r)
      (simp_all add: execute_migration_def Let_def now_isoformat_def echo_def
        get_executed_migrations_def)
qed

lemma execute_migration_attempts:
  "attempts (out (snd (execute_migration env w m f))) = attempts (out w) @ [id' m]"
proof -
  obtain r w1 where ec:
    "execute_changes env (echo w (Executing (id' m) (author m))) (changes m) = (r, w1)"
    by (cases "execute_changes env (echo w (Executing (id' m) (author m))) (changes m)")
  have "bookkeeping w1 = bookkeeping (echo w (Executing (id' m) (author m)))"
    using execute_changes_books [of env "echo w (Executing (id' m) (author m))" "changes m"] ec
    by simp
  then have "attempts (out w1) = attempts (out w) @ [id' m]"
    by (simp add: bookkeeping_def echo_def attempts_append)
  then show ?thesis
    using ec
    by (cases r)
      (simp_all add: execute_migration_def Let_def now_isoformat_def echo_def attempts_append)
qed

section \<open>What change operations neither read nor write\<close>

lemma beside_changes_echo:
  assumes "beside_changes F"
  shows "echo (F v) msg = F (echo v msg)"
  using assms by (simp add: beside_changes_def echo_def)

lemma execute_sql_Sql_beside:
  assumes "beside_changes F"
  shows "execute_sql env (F w) (Sql s ps) = apsnd F (execute_sql env w (Sql s ps))"
  using assms by (simp add: beside_changes_def split: option.splits)

lemma create_table_beside:
  assumes "beside_changes F"
  shows "create_table env (F w) d = apsnd F (create_table env w d)"
  by (simp add: create_table_def execute_sql_Sql_beside [OF assms] del: execute_sql.simps
      split: sum.splits)

lemma add_column_beside:
  assumes "beside_changes F"
  shows "add_column env (F w) d = apsnd F (add_column env w d)"
  by (simp add: add_column_def execute_sql_Sql_beside [OF assms] del: execute_sql.simps
      split: sum.splits)

lemma drop_column_beside:
  assumes "beside_changes F"
  shows "drop_column env (F w) d = apsnd F (drop_column env w d)"
  by (simp add: drop_column_def execute_sql_Sql_beside [OF assms] beside_changes_echo [OF assms]
      Let_def del: execute_sql.simps split: sum.splits)

lemma rename_column_beside:
  assumes "beside_changes F"
  shows "rename_column env (F w) d = apsnd F (rename_column env w d)"
  by (simp add: rename_column_def execute_sql_Sql_beside [OF assms] del: execute_sql.simps
      split: sum.splits)

lemma create_index_beside:
  assumes "beside_changes F"
  shows "create_index env (F w) d = apsnd F (create_index env w d)"
  by (simp add: create_index_def execute_sql_Sql_beside [OF assms] del: execute_sql.simps
      split: sum.splits)

lemma drop_table_beside:
  assumes "beside_changes F"
  shows "drop_table env (F w) d = apsnd F (drop_table env w d)"
  by (simp add: drop_table_def execute_sql_Sql_beside [OF assms] del: execute_sql.simps
      split: sum.splits)

lemma execute_raw_sql_beside:
  assumes "beside_changes F"
  shows "execute_raw_sql env (F w) d = apsnd F (execute_raw_sql env w d)"
  by (simp add: execute_raw_sql_def execute_sql_Sql_beside [OF assms] del: execute_sql.simps
      split: sum.splits json.splits)

lemma insert_data_beside:
  assumes "beside_changes F"
  shows "insert_data env (F w) d = apsnd F (insert_data env w d)"
  by (simp add: insert_data_def execute_sql_Sql_beside [OF assms] del: execute_sql.simps
      split: sum.splits prod.splits)

lemma execute_change_beside:
  assumes "beside_changes F"
  shows "execute_change env (F w) c = apsnd F (execute_change env w c)"
  by (cases "(env, w, c)" rule: execute_change.cases)
    (simp_all add: create_table_beside [OF assms] add_column_beside [OF assms]
      drop_column_beside [OF assms] rename_column_beside [OF assms]
      create_index_beside [OF assms] drop_table_beside [OF assms]
      execute_raw_sql_beside [OF assms] insert_data_beside [OF assms])

lemma execute_changes_beside:
  assumes "beside_changes F"
  shows "execute_changes env (F w) cs = apsnd F (execute_changes env w cs)"
proof (induction cs arbitrary: w)
  case Nil
  show ?case by simp
next
  case (Cons c cs)
  obtain r w1 where step: "execute_change env w c = (r, w1)"
    by (cases "execute_change env w c")
  with Cons show ?case
    by (cases r) (simp_all add: execute_change_beside [OF assms])
qed

section \<open>A change set that fails\<close>

text \<open>
  Claim C1 (corrected). A change set is not applied all-or-nothing: every operation is
  committed when it is executed. When the operations \<open>pre\<close> of a change set succeed and
  the next one fails, execute_migration returns False, the tables are as the operations
  \<open>pre\<close> left them, and the ledger is as it was before the change set: no entry is added.
\<close>

theorem failed_change_set_keeps_earlier_operations:
  assumes "execute_changes env (echo w (Executing (id' m) (author m))) pre = (None, w1)"
    and "execute_change env w1 c = (Some e, w2)"
    and "changes m = pre @ c # post"
  shows "fst (execute_migration env w m f) = False
         \<and> user (snd (execute_migration env w m f)) = user w1
         \<and> changelog (snd (execute_migration env w m f)) = changelog w"
proof -
  have ec: "execute_changes env (echo w (Executing (id' m) (author m))) (changes m) = (Some e, w2)"
    using assms by (simp add: execute_changes_append_fail)
  then have res: "execute_migration env w m f = (False, echo w2 (ExecuteError (id' m) e))"
    by (simp add: execute_migration_def)
  have "user w2 = user w1"
    using execute_change_fails [of env w1 c] assms(2) by simp
  moreover have "changelog (snd (execute_migration env w m f)) = changelog w"
    using execute_migration_changelog [of env w m f] res by simp
  ultimately show ?thesis
    using res by (simp add: echo_def)
qed

theorem failed_change_set_keeps_earlier_operations_witness:
  "execute_changes recording_env (echo (cli fresh) (Executing (id' mig_bad) (author mig_bad)))
       [raw_sql ''CREATE TABLE t (x)'']
     = (None, (echo (cli fresh) (Executing ''bad'' ''ann''))\<lparr>user := [(''CREATE TABLE t (x)'', [])]\<rparr>)
   \<and> execute_change recording_env
       ((echo (cli fresh) (Executing ''bad'' ''ann''))\<lparr>user := [(''CREATE TABLE t (x)'', [])]\<rparr>)
       (JDict [(''addColumn'', JDict [(''tableName'', JStr ''t'')])])
     = (Some KeyError,
        (echo (cli fresh) (Executing ''bad'' ''ann''))\<lparr>user := [(''CREATE TABLE t (x)'', [])]\<rparr>)
   \<and> changes mig_bad
     = [raw_sql ''CREATE TABLE t (x)''] @ JDict [(''addColumn'', JDict [(''tableName'', JStr ''t'')])] # []
   \<and> fst (execute_migration recording_env (cli fresh) mig_bad ''changelog.yaml'') = False
   \<and> user (snd (execute_migration recording_env (cli fresh) mig_bad ''changelog.yaml''))
     = [(''CREATE TABLE t (x)'', [])]
   \<and> changelog (snd (execute_migration recording_env (cli fresh) mig_bad ''changelog.yaml'')) = []"
proof -
  let ?w1 = "(echo (cli fresh) (Executing ''bad'' ''ann''))\<lparr>user := [(''CREATE TABLE t (x)'', [])]\<rparr>"
  have h1: "execute_changes recording_env
       (echo (cli fresh) (Executing (id' mig_bad) (author mig_bad))) [raw_sql ''CREATE TABLE t (x)'']
     = (None, ?w1)"
    by (simp add: example_defs run_defs)
  have h2: "execute_change recording_env ?w1
       (JDict [(''addColumn'', JDict [(''tableName'', JStr ''t'')])]) = (Some KeyError, ?w1)"
    by (simp add: example_defs run_defs)
  have h3: "changes mig_bad
     = [raw_sql ''CREATE TABLE t (x)''] @ JDict [(''addColumn'', JDict [(''tableName'', JStr ''t'')])] # []"
    by (simp add: example_defs)
  from failed_change_set_keeps_earlier_operations [OF h1 h2 h3, of "''changelog.yaml''"] h1 h2 h3
  show ?thesis
    by (simp add: example_defs run_defs)
qed

text \<open>
  The claim C1 as stated fails on a change set whose second operation is malformed: its
  first operation, CREATE TABLE t, stays committed (the ledger has no entry for it).
\<close>

theorem failed_change_set_leaves_trace:
  "user (update recording_env (cli fresh) [mig_bad] ''changelog.yaml'')
     = [(''CREATE TABLE t (x)'', [])]
   \<and> user (cli fresh) = []
   \<and> changelog (update recording_env (cli fresh) [mig_bad] ''changelog.yaml'') = []
   \<and> out (update recording_env (cli fresh) [mig_bad] ''changelog.yaml'')
     = [FoundPending 1, Executing ''bad'' ''ann'', ExecuteError ''bad'' KeyError]"
  by (simp add: example_defs run_defs)

section \<open>Rollback and the fingerprint\<close>

lemma rollback_migration_checksum:
  "rollback_migration env w (m\<lparr>checksum := c\<rparr>) = rollback_migration env w m"
  by (simp add: rollback_migration_def Let_def split: prod.splits option.splits)

lemma migrations_dict_checksum:
  "migrations_dict (map (\<lambda>m. m\<lparr>checksum := g m\<rparr>) ms) k
     = map_option (\<lambda>m. m\<lparr>checksum := g m\<rparr>) (migrations_dict ms k)"
proof -
  have "rev (map (\<lambda>m. (id' m, m)) (map (\<lambda>m. m\<lparr>checksum := g m\<rparr>) ms))
      = map (\<lambda>(i, m). (i, m\<lparr>checksum := g m\<rparr>)) (rev (map (\<lambda>m. (id' m, m)) ms))"
    by (simp add: rev_map comp_def)
  then show ?thesis
    by (simp add: migrations_dict_def map_of_map)
qed

lemma rollback_loop_checksum:
  "(\<And>k. d' k = map_option (\<lambda>m. m\<lparr>checksum := g m\<rparr>) (d k)) \<Longrightarrow>
   rollback_loop env w d' ids = rollback_loop env w d ids"
proof (induction ids arbitrary: w)
  case Nil
  show ?case by simp
next
  case (Cons i ids)
  show ?case
  proof (cases "d i")
    case None
    with Cons show ?thesis by simp
  next
    case (Some m)
    with Cons show ?thesis by (simp add: rollback_migration_checksum)
  qed
qed

lemma beside_changes_restamp: "beside_changes (restamp h)"
  by (simp add: beside_changes_def restamp_def)

lemma insort_key_map:
  "(\<And>x. f (g x) = f x) \<Longrightarrow> insort_key f (g x) (map g xs) = map g (insort_key f x xs)"
  by (induction xs) simp_all

lemma sort_key_map:
  "(\<And>x. f (g x) = f x) \<Longrightarrow> sort_key f (map g xs) = map g (sort_key f xs)"
  by (induction xs) (simp_all add: insort_key_map)

lemma get_executed_migrations_restamp:
  "get_executed_migrations (restamp h w) = get_executed_migrations w"
  by (simp add: get_executed_migrations_def restamp_def sort_key_map comp_def)

lemma restamp_echo: "echo (restamp h w) msg = restamp h (echo w msg)"
  by (simp add: restamp_def echo_def)

lemma rollback_migration_restamp:
  "rollback_migration env (restamp h w) m = apsnd (restamp h) (rollback_migration env w m)"
proof -
  obtain r w1 where ec: "execute_changes env (echo w (RollingBack (id' m))) (rollback' m) = (r, w1)"
    by (cases "execute_changes env (echo w (RollingBack (id' m))) (rollback' m)")
  then have ec': "execute_changes env (echo (restamp h w) (RollingBack (id' m)))
      (rollback' m) = (r, restamp h w1)"
    by (simp add: restamp_echo execute_changes_beside [OF beside_changes_restamp])
  have del: "filter (\<lambda>r. id_col r \<noteq> id' m) (map (\<lambda>r. r\<lparr>md5sum := h r\<rparr>) rows)
      = map (\<lambda>r. r\<lparr>md5sum := h r\<rparr>) (filter (\<lambda>r. id_col r \<noteq> id' m) rows)" for rows
    by (simp add: filter_map comp_def)
  show ?thesis
  proof (cases r)
    case None
    with ec ec' del [of "changelog w1"] show ?thesis
      by (simp add: rollback_migration_def Let_def restamp_echo)
        (simp add: restamp_def echo_def)
  next
    case (Some e)
    with ec ec' show ?thesis
      by (simp add: rollback_migration_def Let_def restamp_echo)
  qed
qed

lemma rollback_loop_restamp:
  "rollback_loop env (restamp h w) d ids = restamp h (rollback_loop env w d ids)"
  by (induction ids arbitrary: w) (simp_all add: rollback_migration_restamp split: option.splits)

lemma rollback_restamp:
  "rollback env (restamp h w) count ms = restamp h (rollback env w count ms)"
  by (simp add: rollback_def get_executed_migrations_restamp rollback_loop_restamp)

text \<open>
  Claim C2 (corrected). A rollback run compares no fingerprints: it is the same run
  whatever fingerprints the supplied change sets carry and whatever fingerprints the
  ledger records, and so is the rollback of one change set. A targeted entry whose
  change set has been edited since it was applied is rolled back like any other.
\<close>

theorem rollback_ignores_fingerprints:
  "rollback env w count (map (\<lambda>m. m\<lparr>checksum := g m\<rparr>) migrations)
     = rollback env w count migrations
   \<and> rollback env (restamp h w) count migrations = restamp h (rollback env w count migrations)
   \<and> rollback_migration env w (m\<lparr>checksum := c\<rparr>) = rollback_migration env w m"
  by (simp add: rollback_def rollback_migration_checksum rollback_restamp [unfolded rollback_def]
      rollback_loop_checksum [where g = g, OF migrations_dict_checksum])

text \<open>
  The claim as stated fails: A is applied, its operations are edited (the fingerprint of
  the document is no longer the recorded one), and the rollback goes through: the ledger
  entry is deleted and DROP TABLE is committed.
\<close>

theorem rollback_of_edited_change_set:
  "map md5sum (changelog (update recording_env (cli fresh) [mig_A] ''changelog.yaml''))
     = [''8544e8329ff90d92d11c3c95b16e3d62'']
   \<and> checksum mig_A_edited = ''e8a27c895994680b16fc9194e37201df''
   \<and> changelog (rollback recording_env
        (update recording_env (cli fresh) [mig_A] ''changelog.yaml'') 1 [mig_A_edited]) = []
   \<and> user (rollback recording_env
        (update recording_env (cli fresh) [mig_A] ''changelog.yaml'') 1 [mig_A_edited])
     = [(''CREATE TABLE a (x)'', []), (''DROP TABLE IF EXISTS a'', [])]
   \<and> out (rollback recording_env
        (update recording_env (cli fresh) [mig_A] ''changelog.yaml'') 1 [mig_A_edited])
     = [FoundPending 1, Executing ''A'' ''ann'', Executed ''A'', RollingBack ''A'', RolledBack ''A'']"
  by (simp add: example_defs run_defs)

section \<open>The lock row\<close>

lemma echo_lock: "echo (w\<lparr>changeloglock := l\<rparr>) msg = (echo w msg)\<lparr>changeloglock := l\<rparr>"
  by (simp add: echo_def)

lemma beside_changes_lock: "beside_changes (\<lambda>v. v\<lparr>changeloglock := l\<rparr>)"
  by (simp add: beside_changes_def)

lemma get_executed_migrations_lock:
  "get_executed_migrations (w\<lparr>changeloglock := l\<rparr>) = get_executed_migrations w"
  by (simp add: get_executed_migrations_def)

lemma execute_migration_lock:
  "execute_migration env (w\<lparr>changeloglock := l\<rparr>) m f
     = apsnd (\<lambda>v. v\<lparr>changeloglock := l\<rparr>) (execute_migration env w m f)"
proof -
  obtain r w1 where ec:
    "execute_changes env (echo w (Executing (id' m) (author m))) (changes m) = (r, w1)"
    by (cases "execute_changes env (echo w (Executing (id' m) (author m))) (changes m)")
  then have "execute_changes env (echo (w\<lparr>changeloglock := l\<rparr>) (Executing (id' m) (author m)))
      (changes m) = (r, w1\<lparr>changeloglock := l\<rparr>)"
    by (simp add: beside_changes_echo [OF beside_changes_lock]
        execute_changes_beside [OF beside_changes_lock])
  with ec show ?thesis
    by (cases r)
      (simp_all add: execute_migration_def Let_def now_isoformat_def
        get_executed_migrations_def echo_def)
qed

lemma rollback_migration_lock:
  "rollback_migration env (w\<lparr>changeloglock := l\<rparr>) m
     = apsnd (\<lambda>v. v\<lparr>changeloglock := l\<rparr>) (rollback_migration env w m)"
proof -
  obtain r w1 where ec: "execute_changes env (echo w (RollingBack (id' m))) (rollback' m) = (r, w1)"
    by (cases "execute_changes env (echo w (RollingBack (id' m))) (rollback' m)")
  then have "execute_changes env (echo (w\<lparr>changeloglock := l\<rparr>) (RollingBack (id' m)))
      (rollback' m) = (r, w1\<lparr>changeloglock := l\<rparr>)"
    by (simp add: beside_changes_echo [OF beside_changes_lock]
        execute_changes_beside [OF beside_changes_lock])
  with ec show ?thesis
    by (cases r) (simp_all add: rollback_migration_def Let_def echo_def)
qed

lemma update_loop_lock:
  "update_loop env (w\<lparr>changeloglock := l\<rparr>) ms f = (update_loop env w ms f)\<lparr>changeloglock := l\<rparr>"
  by (induction ms arbitrary: w) (simp_all add: execute_migration_lock)

lemma rollback_loop_lock:
  "rollback_loop env (w\<lparr>changeloglock := l\<rparr>) d ids = (rollback_loop env w d ids)\<lparr>changeloglock := l\<rparr>"
  by (induction ids arbitrary: w) (simp_all add: rollback_migration_lock split: option.splits)

lemma update_lock:
  "update env (w\<lparr>changeloglock := l\<rparr>) ms f = (update env w ms f)\<lparr>changeloglock := l\<rparr>"
  by (simp add: update_def Let_def get_executed_migrations_lock echo_lock update_loop_lock)

lemma rollback_lock:
  "rollback env (w\<lparr>changeloglock := l\<rparr>) count ms = (rollback env w count ms)\<lparr>changeloglock := l\<rparr>"
  by (simp add: rollback_def Let_def get_executed_migrations_lock rollback_loop_lock)

lemma lock_unchanged:
  assumes "\<And>l. f (w\<lparr>changeloglock := l\<rparr>) = (f w)\<lparr>changeloglock := l\<rparr>"
  shows "changeloglock (f w) = changeloglock w"
proof -
  have "f w = f (w\<lparr>changeloglock := changeloglock w\<rparr>)" by simp
  also have "\<dots> = (f w)\<lparr>changeloglock := changeloglock w\<rparr>" by (rule assms)
  finally have "changeloglock (f w) = changeloglock ((f w)\<lparr>changeloglock := changeloglock w\<rparr>)"
    by simp
  then show ?thesis by simp
qed

text \<open>
  Claim C3 (corrected). Update and rollback neither acquire nor release the lock. The
  lock row is inserted, unlocked, when the DatabaseManager is built and no row is there;
  a run leaves the row as it found it, and what the run does to the ledger, the tables
  and the output is the same whatever the row says.
\<close>

theorem lock_row_is_never_used:
  "update env (w\<lparr>changeloglock := l\<rparr>) migrations f
     = (update env w migrations f)\<lparr>changeloglock := l\<rparr>
   \<and> rollback env (w\<lparr>changeloglock := l\<rparr>) count migrations
     = (rollback env w count migrations)\<lparr>changeloglock := l\<rparr>
   \<and> changeloglock (update env w migrations f) = changeloglock w
   \<and> changeloglock (rollback env w count migrations) = changeloglock w
   \<and> changeloglock (cli w)
     = Some (case changeloglock w of
               None \<Rightarrow> \<lparr>locked = False, lockgranted = None, lockedby = None\<rparr>
             | Some row \<Rightarrow> row)"
proof -
  have "changeloglock (update env w migrations f) = changeloglock w"
    by (rule lock_unchanged [where f = "\<lambda>w. update env w migrations f"]) (rule update_lock)
  moreover have "changeloglock (rollback env w count migrations) = changeloglock w"
    by (rule lock_unchanged [where f = "\<lambda>w. rollback env w count migrations"]) (rule rollback_lock)
  ultimately show ?thesis
    by (simp add: update_lock rollback_lock cli_def init_changelog_table_def split: option.splits)
qed

text \<open>
  The claim as stated fails: the lock row says that another process holds the lock, and
  update applies the pending change set all the same.
\<close>

theorem update_runs_while_lock_is_held:
  "changeloglock (cli held)
     = Some \<lparr>locked = True, lockgranted = Some ''2024-01-01T00:00:00'', lockedby = Some ''other''\<rparr>
   \<and> map id_col (changelog (update recording_env (cli held) [mig_A] ''changelog.yaml'')) = [''A'']
   \<and> user (update recording_env (cli held) [mig_A] ''changelog.yaml'') = [(''CREATE TABLE a (x)'', [])]
   \<and> changeloglock (update recording_env (cli held) [mig_A] ''changelog.yaml'')
     = Some \<lparr>locked = True, lockgranted = Some ''2024-01-01T00:00:00'', lockedby = Some ''other''\<rparr>"
  by (simp add: example_defs run_defs)

section \<open>The order of execution\<close>

text \<open>
  Claim C4 (code bug). The new row gets the number of rows plus one, not the largest
  \<open>order_executed\<close> plus one. A, B, C and D are applied; a rollback of 4 with a document
  that holds A and B only removes B and A; the two are applied again. A and B now have
  the \<open>order_executed\<close> of C and of D, the values are not increasing in the order of
  application (the rows below are in that order), and a rollback of 2 targets B and D,
  though A was applied after D.
\<close>

theorem order_executed_repeats:
  "map (\<lambda>r. (id_col r, order_executed r))
     (changelog (update recording_env (cli fresh) [mig_A, mig_B, mig_C, mig_D] ''changelog.yaml''))
     = [(''A'', 1), (''B'', 2), (''C'', 3), (''D'', 4)]
   \<and> map (\<lambda>r. (id_col r, order_executed r))
     (changelog (rollback recording_env
        (update recording_env (cli fresh) [mig_A, mig_B, mig_C, mig_D] ''changelog.yaml'')
        4 [mig_A, mig_B]))
     = [(''C'', 3), (''D'', 4)]
   \<and> map (\<lambda>r. (id_col r, order_executed r))
     (changelog (update recording_env
        (rollback recording_env
           (update recording_env (cli fresh) [mig_A, mig_B, mig_C, mig_D] ''changelog.yaml'')
           4 [mig_A, mig_B])
        [mig_A, mig_B] ''changelog.yaml''))
     = [(''C'', 3), (''D'', 4), (''A'', 3), (''B'', 4)]
   \<and> to_rollback 2 (get_executed_migrations (update recording_env
        (rollback recording_env
           (update recording_env (cli fresh) [mig_A, mig_B, mig_C, mig_D] ''changelog.yaml'')
           4 [mig_A, mig_B])
        [mig_A, mig_B] ''changelog.yaml''))
     = [''B'', ''D'']"
  by (simp add: example_defs run_defs)

section \<open>The loop of update\<close>

lemma update_loop_changelog:
  "prefix (changelog w) (changelog (update_loop env w ms f))"
proof (induction ms arbitrary: w)
  case Nil
  show ?case by simp
next
  case (Cons m ms)
  have "prefix (changelog w) (changelog (snd (execute_migration env w m f)))"
    by (simp add: execute_migration_changelog)
  then show ?case
    using Cons.IH [of "snd (execute_migration env w m f)"] by (auto intro: prefix_order.trans)
qed

lemma update_loop_attempts:
  "attempts (out (update_loop env w ms f)) = attempts (out w) @ map id' ms"
  by (induction ms arbitrary: w) (simp_all add: execute_migration_attempts)

lemma update_loop_append:
  "update_loop env w (ms @ ms') f = update_loop env (update_loop env w ms f) ms' f"
  by (induction ms arbitrary: w) simp_all

text \<open>
  Claim C5 (corrected). An update run does not stop at a change set that fails: it starts
  every pending change set, in the order of the document, whatever happened to the
  earlier ones, and after any change set, failed or not, the loop goes on with the rest
  of the list from the state that the change set left. The rows that the ledger had, and
  those that the run has added, stay: the ledger before the run is a prefix of the ledger
  after it.
\<close>

theorem update_attempts_every_pending:
  "prefix (changelog w) (changelog (update env w migrations f))
   \<and> attempts (out (update env w migrations f))
     = attempts (out w)
       @ map id' (filter (\<lambda>m. id' m \<notin> set (get_executed_migrations w)) migrations)
   \<and> update_loop env w (ms @ m # rest) f
     = update_loop env (snd (execute_migration env (update_loop env w ms f) m f)) rest f"
proof -
  let ?pending = "filter (\<lambda>m. id' m \<notin> set (get_executed_migrations w)) migrations"
  have loop: "update_loop env w (ms @ m # rest) f
     = update_loop env (snd (execute_migration env (update_loop env w ms f) m f)) rest f"
    by (simp add: update_loop_append)
  show ?thesis
  proof (cases "?pending = []")
    case True
    then show ?thesis using loop by (simp add: update_def echo_def attempts_append)
  next
    case False
    have "prefix (changelog (echo w (FoundPending (length ?pending))))
            (changelog (update_loop env (echo w (FoundPending (length ?pending))) ?pending f))"
      by (rule update_loop_changelog)
    moreover have "attempts (out (update_loop env (echo w (FoundPending (length ?pending))) ?pending f))
        = attempts (out (echo w (FoundPending (length ?pending)))) @ map id' ?pending"
      by (rule update_loop_attempts)
    ultimately show ?thesis
      using False loop by (simp add: update_def Let_def echo_def attempts_append)
  qed
qed

text \<open>
  The claim C5 as stated fails: the first pending change set fails, and the one after it
  is applied and recorded.
\<close>

theorem update_continues_after_failure:
  "map id_col (changelog (update recording_env (cli fresh) [mig_bad, mig_B] ''changelog.yaml''))
     = [''B'']
   \<and> out (update recording_env (cli fresh) [mig_bad, mig_B] ''changelog.yaml'')
     = [FoundPending 2, Executing ''bad'' ''ann'', ExecuteError ''bad'' KeyError,
        Executing ''B'' ''ann'', Executed ''B'']"
  by (simp add: example_defs run_defs)

section \<open>Targets that the document does not define\<close>

lemma migrations_dict_None:
  "k \<notin> set (map id' ms) \<Longrightarrow> migrations_dict ms k = None"
  by (simp add: migrations_dict_def map_of_eq_None_iff image_image rev_map [symmetric])

lemma migrations_dict_Some:
  "migrations_dict ms k = Some m \<Longrightarrow> id' m = k"
  by (auto simp: migrations_dict_def dest!: map_of_SomeD)

lemma rollback_loop_skip:
  "d k = None \<Longrightarrow> rollback_loop env w d (pre @ k # rest) = rollback_loop env w d (pre @ rest)"
  by (induction pre arbitrary: w) (simp_all split: option.splits)

lemma rollback_migration_other_rows:
  assumes "id' m \<noteq> k"
  shows "filter (\<lambda>r. id_col r = k) (changelog (snd (rollback_migration env w m)))
           = filter (\<lambda>r. id_col r = k) (changelog w)"
proof -
  obtain r w1 where ec: "execute_changes env (echo w (RollingBack (id' m))) (rollback' m) = (r, w1)"
    by (cases "execute_changes env (echo w (RollingBack (id' m))) (rollback' m)")
  have "bookkeeping w1 = bookkeeping (echo w (RollingBack (id' m)))"
    using execute_changes_books [of env "echo w (RollingBack (id' m))" "rollback' m"] ec by simp
  then have same: "changelog w1 = changelog w"
    by (simp add: bookkeeping_def echo_def)
  have "filter (\<lambda>r. id_col r = k) (filter (\<lambda>r. id_col r \<noteq> id' m) (changelog w))
      = filter (\<lambda>r. id_col r = k) (changelog w)"
    using assms by (auto intro: filter_cong)
  with ec same show ?thesis
    by (cases r) (simp_all add: rollback_migration_def Let_def echo_def)
qed

lemma rollback_loop_other_rows:
  assumes "\<And>i m. d i = Some m \<Longrightarrow> id' m = i" and "d k = None"
  shows "filter (\<lambda>r. id_col r = k) (changelog (rollback_loop env w d ids))
           = filter (\<lambda>r. id_col r = k) (changelog w)"
proof (induction ids arbitrary: w)
  case Nil
  show ?case by simp
next
  case (Cons i ids)
  show ?case
  proof (cases "d i")
    case None
    with Cons show ?thesis by simp
  next
    case (Some m)
    then have "id' m \<noteq> k"
      using assms by auto
    with Some Cons [of "snd (rollback_migration env w m)"] show ?thesis
      by (simp add: rollback_migration_other_rows)
  qed
qed

text \<open>
  Claim C6 (corrected). A targeted ledger entry whose id has no change set in the
  supplied document is passed over: nothing is executed or echoed for it, the run goes
  on with the other targets as if the entry had not been targeted, and the ledger rows
  of that id are after the run what they were before it.
\<close>

theorem rollback_skips_unknown_id:
  assumes "migration_id \<notin> set (map id' migrations)"
    and "to_rollback count (get_executed_migrations w) = pre @ migration_id # rest"
  shows "rollback env w count migrations
           = rollback_loop env w (migrations_dict migrations) (pre @ rest)
         \<and> filter (\<lambda>r. id_col r = migration_id) (changelog (rollback env w count migrations))
           = filter (\<lambda>r. id_col r = migration_id) (changelog w)"
proof -
  have none: "migrations_dict migrations migration_id = None"
    using assms(1) by (rule migrations_dict_None)
  have "filter (\<lambda>r. id_col r = migration_id)
          (changelog (rollback_loop env w (migrations_dict migrations)
             (to_rollback count (get_executed_migrations w))))
        = filter (\<lambda>r. id_col r = migration_id) (changelog w)"
    using none by (intro rollback_loop_other_rows) (auto dest: migrations_dict_Some)
  then show ?thesis
    using assms(2) none by (simp add: rollback_def rollback_loop_skip)
qed

theorem rollback_skips_unknown_id_witness:
  "''B'' \<notin> set (map id' [mig_A])
   \<and> to_rollback 2 (get_executed_migrations
        (update recording_env (cli fresh) [mig_A, mig_B] ''changelog.yaml'')) = [] @ ''B'' # [''A'']
   \<and> rollback recording_env
        (update recording_env (cli fresh) [mig_A, mig_B] ''changelog.yaml'') 2 [mig_A]
     = rollback_loop recording_env
        (update recording_env (cli fresh) [mig_A, mig_B] ''changelog.yaml'')
        (migrations_dict [mig_A]) ([] @ [''A''])
   \<and> map id_col (filter (\<lambda>r. id_col r = ''B'') (changelog (rollback recording_env
        (update recording_env (cli fresh) [mig_A, mig_B] ''changelog.yaml'') 2 [mig_A])))
     = [''B'']"
proof -
  have h1: "''B'' \<notin> set (map id' [mig_A])"
    by (simp add: example_defs)
  have h2: "to_rollback 2 (get_executed_migrations
        (update recording_env (cli fresh) [mig_A, mig_B] ''changelog.yaml'')) = [] @ ''B'' # [''A'']"
    by (simp add: example_defs run_defs)
  have c: "map id_col (filter (\<lambda>r. id_col r = ''B'')
      (changelog (update recording_env (cli fresh) [mig_A, mig_B] ''changelog.yaml''))) = [''B'']"
    by (simp add: example_defs run_defs)
  note t = rollback_skips_unknown_id [OF h1 h2, of recording_env]
  have t1: "rollback recording_env
        (update recording_env (cli fresh) [mig_A, mig_B] ''changelog.yaml'') 2 [mig_A]
     = rollback_loop recording_env
        (update recording_env (cli fresh) [mig_A, mig_B] ''changelog.yaml'')
        (migrations_dict [mig_A]) ([] @ [''A''])"
    using t by (rule conjunct1)
  have t2: "filter (\<lambda>r. id_col r = ''B'') (changelog (rollback recording_env
        (update recording_env (cli fresh) [mig_A, mig_B] ''changelog.yaml'') 2 [mig_A]))
     = filter (\<lambda>r. id_col r = ''B'')
        (changelog (update recording_env (cli fresh) [mig_A, mig_B] ''changelog.yaml''))"
    using t by (rule conjunct2)
  have c': "map id_col (filter (\<lambda>r. id_col r = ''B'') (changelog (rollback recording_env
        (update recording_env (cli fresh) [mig_A, mig_B] ''changelog.yaml'') 2 [mig_A])))
     = [''B'']"
    unfolding t2 by (rule c)
  from h1 h2 t1 c' show ?thesis by (intro conjI)
qed

text \<open>
  The claim as stated fails: B, the first target, is not in the document; the run does
  not fail or stop there, it rolls back A, the next target.
\<close>

theorem rollback_passes_over_missing_definition:
  "get_executed_migrations (update recording_env (cli fresh) [mig_A, mig_B] ''changelog.yaml'')
     = [''A'', ''B'']
   \<and> map id_col (changelog (rollback recording_env
        (update recording_env (cli fresh) [mig_A, mig_B] ''changelog.yaml'') 2 [mig_A])) = [''B'']
   \<and> out (rollback recording_env
        (update recording_env (cli fresh) [mig_A, mig_B] ''changelog.yaml'') 2 [mig_A])
     = [FoundPending 2, Executing ''A'' ''ann'', Executed ''A'', Executing ''B'' ''ann'',
        Executed ''B'', RollingBack ''A'', RolledBack ''A'']"
  by (simp add: example_defs run_defs)

section \<open>The fingerprint\<close>

text \<open>
  Claim C7 (corrected). Two change sets with the same id, author and operations have the
  same fingerprint, whatever their descriptions and rollbacks: the fingerprint is the
  digest of the id, the author and the serialised operations put one after the other,
  computed when the change set is built. That change sets which differ in one of the
  three have different fingerprints is not part of the amended claim.
\<close>

theorem fingerprint_of_three_fields:
  "checksum (Migration md5_hexdigest json_dumps i a d1 chs rb1)
     = checksum (Migration md5_hexdigest json_dumps i a d2 chs rb2)
   \<and> checksum (Migration md5_hexdigest json_dumps i a d chs rb)
     = md5_hexdigest (i @ a @ json_dumps (JList chs))"
  by (simp add: Migration_def calculate_checksum_def)

text \<open>
  The claim as stated fails: id "ab" with author "c" and id "a" with author "bc" give the
  same text to hash, hence the same fingerprint, with any digest and any serialiser.
\<close>

theorem fingerprint_collision:
  "(\<forall>md5_hexdigest json_dumps.
      checksum (Migration md5_hexdigest json_dumps ''ab'' ''c'' [] [] None)
        = checksum (Migration md5_hexdigest json_dumps ''a'' ''bc'' [] [] None))
   \<and> ''ab'' \<noteq> ''a'' \<and> ''c'' \<noteq> ''bc''"
  by (simp add: Migration_def calculate_checksum_def)

section \<open>A second update\<close>

lemma pending_empty:
  "set (map id' ms) \<subseteq> set executed \<Longrightarrow> filter (\<lambda>m. id' m \<notin> set executed) ms = []"
  by (auto simp: filter_empty_conv)

text \<open>
  Claim C8 (corrected). When the ledger holds the id of every change set of the document,
  as it does after a run that applied them all, update applies nothing: it leaves the
  ledger and the tables as they are and echoes the one line "Database is up to date!".
  There is no report of skipped ids.
\<close>

theorem update_again_is_up_to_date:
  assumes "set (map id' migrations) \<subseteq> set (get_executed_migrations w)"
  shows "update env w migrations changelog_file = echo w UpToDate
         \<and> changelog (update env w migrations changelog_file) = changelog w
         \<and> user (update env w migrations changelog_file) = user w
         \<and> out (update env w migrations changelog_file) = out w @ [UpToDate]"
  using pending_empty [OF assms] by (simp add: update_def echo_def)

theorem update_again_is_up_to_date_witness:
  "set (map id' [mig_A, mig_B]) \<subseteq>
     set (get_executed_migrations (update recording_env (cli fresh) [mig_A, mig_B] ''changelog.yaml''))
   \<and> update recording_env (update recording_env (cli fresh) [mig_A, mig_B] ''changelog.yaml'')
        [mig_A, mig_B] ''changelog.yaml''
      = echo (update recording_env (cli fresh) [mig_A, mig_B] ''changelog.yaml'') UpToDate
   \<and> map id_col (changelog (update recording_env
        (update recording_env (cli fresh) [mig_A, mig_B] ''changelog.yaml'')
        [mig_A, mig_B] ''changelog.yaml'')) = [''A'', ''B'']"
proof -
  have h: "set (map id' [mig_A, mig_B]) \<subseteq>
     set (get_executed_migrations (update recording_env (cli fresh) [mig_A, mig_B] ''changelog.yaml''))"
    by (simp add: example_defs run_defs)
  have c: "map id_col (changelog (update recording_env (cli fresh) [mig_A, mig_B] ''changelog.yaml''))
      = [''A'', ''B'']"
    by (simp add: example_defs run_defs)
  from update_again_is_up_to_date [OF h, of recording_env "''changelog.yaml''"] h c
  show ?thesis by (simp add: echo_def)
qed

text \<open>
  The claim as stated fails on what the second call reports: all that it prints is the
  last line below, which names no id.
\<close>

theorem second_update_reports_no_ids:
  "out (update recording_env
          (update recording_env (cli fresh) [mig_A, mig_B] ''changelog.yaml'')
          [mig_A, mig_B] ''changelog.yaml'')
     = [FoundPending 2, Executing ''A'' ''ann'', Executed ''A'',
        Executing ''B'' ''ann'', Executed ''B'', UpToDate]"
  by (simp add: example_defs run_defs)

section \<open>Selecting the rollback targets\<close>

lemma slice_from_zero: "slice_from 0 xs = xs"
  by (simp add: slice_from_def)

lemma slice_from_last: "1 \<le> k \<Longrightarrow> slice_from (- k) xs = drop (length xs - nat k) xs"
  by (auto simp: slice_from_def Let_def max_def nat_diff_distrib' intro: arg_cong [where f = "\<lambda>n. drop n xs"])

lemma length_get_executed_migrations: "length (get_executed_migrations w) = length (changelog w)"
  by (simp add: get_executed_migrations_def)

lemma to_rollback_last:
  "1 \<le> count \<Longrightarrow> to_rollback count executed = take (nat count) (rev executed)"
  by (simp add: to_rollback_def slice_from_last take_rev)

text \<open>With one change set for each id, the dict does not depend on the order of the document.\<close>

lemma migrations_dict_perm:
  assumes "distinct (map id' ms)" "distinct (map id' ms')" "set ms = set ms'"
  shows "migrations_dict ms = migrations_dict ms'"
proof -
  have "map_of (map (\<lambda>m. (id' m, m)) ms) = map_of (map (\<lambda>m. (id' m, m)) ms')"
    using assms by (intro map_of_inject_set [THEN iffD2]) (auto simp: comp_def)
  moreover have "map_of (rev (map (\<lambda>m. (id' m, m)) xs)) = map_of (map (\<lambda>m. (id' m, m)) xs)"
    if "distinct (map id' xs)" for xs :: "migration list"
    using that by (intro map_of_inject_set [THEN iffD2]) (auto simp: comp_def rev_map [symmetric])
  ultimately show ?thesis
    using assms by (simp add: migrations_dict_def)
qed

text \<open>
  What the selection does for a count of at least 1: the targets are the ids of the
  \<open>count\<close> last rows of the ledger in the order of \<open>order_executed\<close>, the last one first
  (all the rows when there are fewer), and a document with one change set for each id
  gives the same run in whatever order it lists them. Whether these rows are the ones
  applied last depends on the values of \<open>order_executed\<close>.
\<close>

lemma rollback_targets_most_recent:
  assumes "1 \<le> count"
    and "distinct (map id' migrations)" and "distinct (map id' migrations')"
    and "set migrations' = set migrations"
  shows "to_rollback count (get_executed_migrations w) =
           map id_col (take (nat count) (rev (sort_key order_executed (changelog w))))
         \<and> rollback env w count migrations' = rollback env w count migrations"
  using assms
  by (simp add: to_rollback_last get_executed_migrations_def rev_map take_map rollback_def
      migrations_dict_perm [of migrations' migrations])

text \<open>
  A, B and C applied in that order, then a rollback of 2 with the document in another
  order: C is undone first, then B.
\<close>

lemma rollback_targets_most_recent_witness:
  "(1::int) \<le> 2
   \<and> distinct (map id' [mig_A, mig_B, mig_C]) \<and> distinct (map id' [mig_B, mig_A, mig_C])
   \<and> set [mig_B, mig_A, mig_C] = set [mig_A, mig_B, mig_C]
   \<and> to_rollback 2 (get_executed_migrations
        (update recording_env (cli fresh) [mig_A, mig_B, mig_C] ''changelog.yaml''))
      = [''C'', ''B'']
   \<and> rollback recording_env
        (update recording_env (cli fresh) [mig_A, mig_B, mig_C] ''changelog.yaml'')
        2 [mig_B, mig_A, mig_C]
      = rollback recording_env
        (update recording_env (cli fresh) [mig_A, mig_B, mig_C] ''changelog.yaml'')
        2 [mig_A, mig_B, mig_C]
   \<and> out (rollback recording_env
        (update recording_env (cli fresh) [mig_A, mig_B, mig_C] ''changelog.yaml'')
        2 [mig_B, mig_A, mig_C])
      = [FoundPending 3, Executing ''A'' ''ann'', Executed ''A'', Executing ''B'' ''ann'',
         Executed ''B'', Executing ''C'' ''ann'', Executed ''C'',
         RollingBack ''C'', RolledBack ''C'', RollingBack ''B'', RolledBack ''B'']"
proof -
  have h1: "(1::int) \<le> 2" by simp
  have h2: "distinct (map id' [mig_A, mig_B, mig_C])" by (simp add: example_defs)
  have h3: "distinct (map id' [mig_B, mig_A, mig_C])" by (simp add: example_defs)
  have h4: "set [mig_B, mig_A, mig_C] = set [mig_A, mig_B, mig_C]" by auto
  have o: "out (rollback recording_env
        (update recording_env (cli fresh) [mig_A, mig_B, mig_C] ''changelog.yaml'')
        2 [mig_B, mig_A, mig_C])
      = [FoundPending 3, Executing ''A'' ''ann'', Executed ''A'', Executing ''B'' ''ann'',
         Executed ''B'', Executing ''C'' ''ann'', Executed ''C'',
         RollingBack ''C'', RolledBack ''C'', RollingBack ''B'', RolledBack ''B'']"
    by (simp add: example_defs run_defs)
  from rollback_targets_most_recent [OF h1 h2 h3 h4, of
      "update recording_env (cli fresh) [mig_A, mig_B, mig_C] ''changelog.yaml''" recording_env]
  show ?thesis using h1 h2 h3 h4 o
    by (simp add: example_defs run_defs)
qed

text \<open>
  Claim C9 (code bug). The command is to roll back the last N migrations, and the targets
  are not always the \<open>count\<close> change sets applied last.
  \<^item> At count = 0 the slice \<open>executed[-count:]\<close> is the whole list: A, B and C are
    applied, and a rollback of none of them targets all three.
  \<^item> At count = 2, after \<open>order_executed\<close> has repeated: A, B, C and D are applied, a
    rollback of 4 with a document that holds A, B and C removes C, B and A, and the three
    are applied again. The ledger, in the order of application, is D:4, A:2, B:3, C:4;
    the two change sets applied last are C and B, and the targets are C and D.
\<close>

theorem rollback_does_not_target_the_last:
  "get_executed_migrations
      (update recording_env (cli fresh) [mig_A, mig_B, mig_C] ''changelog.yaml'')
    = [''A'', ''B'', ''C'']
   \<and> to_rollback 0 (get_executed_migrations
      (update recording_env (cli fresh) [mig_A, mig_B, mig_C] ''changelog.yaml''))
    = [''C'', ''B'', ''A'']
   \<and> map (\<lambda>r. (id_col r, order_executed r))
     (changelog (update recording_env
        (rollback recording_env
           (update recording_env (cli fresh) [mig_A, mig_B, mig_C, mig_D] ''changelog.yaml'')
           4 [mig_A, mig_B, mig_C])
        [mig_A, mig_B, mig_C] ''changelog.yaml''))
     = [(''D'', 4), (''A'', 2), (''B'', 3), (''C'', 4)]
   \<and> to_rollback 2 (get_executed_migrations (update recording_env
        (rollback recording_env
           (update recording_env (cli fresh) [mig_A, mig_B, mig_C, mig_D] ''changelog.yaml'')
           4 [mig_A, mig_B, mig_C])
        [mig_A, mig_B, mig_C] ''changelog.yaml''))
     = [''C'', ''D'']"
  by (simp add: example_defs run_defs)

text \<open>
  Claim C10 (confirmed). With count = 0 the slice \<open>executed[-0:]\<close> is the whole list:
  the targets of the rollback are all the applied migrations, most recent first, as many
  as the ledger has rows, and the run is the one that a count equal to the length of the
  ledger gives.
\<close>

theorem rollback_zero_targets_all:
  "to_rollback 0 (get_executed_migrations w) = rev (get_executed_migrations w)
   \<and> length (to_rollback 0 (get_executed_migrations w)) = length (changelog w)
   \<and> rollback env w 0 migrations =
       rollback_loop env w (migrations_dict migrations) (rev (get_executed_migrations w))
   \<and> rollback env w 0 migrations = rollback env w (int (length (changelog w))) migrations"
  by (simp add: to_rollback_def rollback_def slice_from_zero slice_from_def
      length_get_executed_migrations)

end
